theory Spec2Isabelle
  imports Main "HOL-Library.Log_Nat"
begin

section \<open>JavaScript values and operators used by the zone-state code\<close>

text \<open>
  The values a zone property can hold in this development: \<open>undefined\<close> (also the result
  of reading a property the object does not have), \<open>null\<close>, a boolean, a number, or
  \<open>NaN\<close>. A number property is an integer-valued double, given by its value as an
  \<open>int\<close>. Fractional and infinite numbers, strings and objects as property values are
  outside this data model.
\<close>

datatype jsval = JUndefined | JNull | JBool bool | JNum int | JNaN

text \<open>ToBoolean: \<open>undefined\<close>, \<open>null\<close>, \<open>false\<close>, \<open>0\<close> and \<open>NaN\<close> are falsy.\<close>

fun truthy :: "jsval \<Rightarrow> bool" where
  "truthy JUndefined = False"
| "truthy JNull = False"
| "truthy (JBool b) = b"
| "truthy (JNum n) = (n \<noteq> 0)"
| "truthy JNaN = False"

text \<open>\<open>a || b\<close>: the left operand when it is truthy, the right operand otherwise.\<close>

definition js_or :: "jsval \<Rightarrow> jsval \<Rightarrow> jsval" where
  "js_or a b = (if truthy a then a else b)"

subsection \<open>Binary64 arithmetic on integers\<close>

text \<open>
  The type Number. The sum or difference of two integer-valued doubles is the exact
  result rounded to the nearest double, ties to the even significand, and an infinity
  when the rounded magnitude reaches \<open>2^1024\<close>. For an integer \<open>n\<close> with more than 53
  bits, the doubles around it are the multiples of \<open>2^s\<close>, where \<open>s\<close> is the bit
  length of \<open>n\<close> minus 53; below \<open>2^53\<close> every integer is a double.
\<close>

datatype number = Finite int | PosInfinity | NegInfinity | NotANumber

definition round_to_even :: "int \<Rightarrow> int \<Rightarrow> int" where
  "round_to_even p n =
     (let m = n div p; r = n mod p
      in if 2 * r < p \<or> (2 * r = p \<and> even m) then m * p else (m + 1) * p)"

definition shift_of :: "int \<Rightarrow> nat" where
  "shift_of n = nat (bitlen \<bar>n\<bar> - 53)"

definition round_binary64 :: "int \<Rightarrow> int" where
  "round_binary64 n = round_to_even (2 ^ shift_of n) n"

definition to_binary64 :: "int \<Rightarrow> number" where
  "to_binary64 n =
     (let r = round_binary64 n
      in if 2 ^ 1024 \<le> r then PosInfinity
         else if r \<le> - (2 ^ 1024) then NegInfinity
         else Finite r)"

fun number_add :: "number \<Rightarrow> number \<Rightarrow> number" where
  "number_add (Finite a) (Finite b) = to_binary64 (a + b)"
| "number_add NotANumber y = NotANumber"
| "number_add x NotANumber = NotANumber"
| "number_add PosInfinity NegInfinity = NotANumber"
| "number_add NegInfinity PosInfinity = NotANumber"
| "number_add PosInfinity y = PosInfinity"
| "number_add x PosInfinity = PosInfinity"
| "number_add NegInfinity y = NegInfinity"
| "number_add x NegInfinity = NegInfinity"

fun number_sub :: "number \<Rightarrow> number \<Rightarrow> number" where
  "number_sub (Finite a) (Finite b) = to_binary64 (a - b)"
| "number_sub NotANumber y = NotANumber"
| "number_sub x NotANumber = NotANumber"
| "number_sub PosInfinity PosInfinity = NotANumber"
| "number_sub NegInfinity NegInfinity = NotANumber"
| "number_sub PosInfinity y = PosInfinity"
| "number_sub x PosInfinity = NegInfinity"
| "number_sub NegInfinity y = NegInfinity"
| "number_sub x NegInfinity = PosInfinity"

text \<open>\<open>x > y\<close> on numbers: false as soon as one side is \<open>NaN\<close>.\<close>

fun number_gt :: "number \<Rightarrow> number \<Rightarrow> bool" where
  "number_gt (Finite a) (Finite b) = (a > b)"
| "number_gt NotANumber y = False"
| "number_gt x NotANumber = False"
| "number_gt x PosInfinity = False"
| "number_gt NegInfinity y = False"
| "number_gt PosInfinity y = True"
| "number_gt x NegInfinity = True"

text \<open>\<open>Math.max\<close> of two numbers: \<open>NaN\<close> as soon as one argument is \<open>NaN\<close>.\<close>

fun number_max :: "number \<Rightarrow> number \<Rightarrow> number" where
  "number_max NotANumber y = NotANumber"
| "number_max x NotANumber = NotANumber"
| "number_max x y = (if number_gt y x then y else x)"

subsection \<open>Values held in local variables\<close>

text \<open>
  A local variable holds a property value or a literal, or the result of arithmetic,
  which can also be one of the two infinities.
\<close>

datatype jsvalue = Val jsval | JInfinity | JNegInfinity

text \<open>ToNumber, and the value that stands for a number.\<close>

fun to_number :: "jsvalue \<Rightarrow> number" where
  "to_number (Val JUndefined) = NotANumber"
| "to_number (Val JNull) = Finite 0"
| "to_number (Val (JBool b)) = Finite (if b then 1 else 0)"
| "to_number (Val (JNum n)) = Finite n"
| "to_number (Val JNaN) = NotANumber"
| "to_number JInfinity = PosInfinity"
| "to_number JNegInfinity = NegInfinity"

fun of_number :: "number \<Rightarrow> jsvalue" where
  "of_number (Finite n) = Val (JNum n)"
| "of_number PosInfinity = JInfinity"
| "of_number NegInfinity = JNegInfinity"
| "of_number NotANumber = Val JNaN"

text \<open>
  \<open>a + b\<close> and \<open>a - b\<close> on these values (none is a string): both operands go through
  ToNumber, and the result is the binary64 sum or difference. \<open>a > b\<close> compares the two
  numbers.
\<close>

definition js_add :: "jsvalue \<Rightarrow> jsvalue \<Rightarrow> jsvalue" where
  "js_add a b = of_number (number_add (to_number a) (to_number b))"

definition js_sub :: "jsvalue \<Rightarrow> jsvalue \<Rightarrow> jsvalue" where
  "js_sub a b = of_number (number_sub (to_number a) (to_number b))"

definition js_gt :: "jsvalue \<Rightarrow> jsvalue \<Rightarrow> bool" where
  "js_gt a b = number_gt (to_number a) (to_number b)"

definition Math_max :: "jsvalue \<Rightarrow> jsvalue \<Rightarrow> jsvalue" where
  "Math_max a b = of_number (number_max (to_number a) (to_number b))"

section \<open>Zones\<close>

text \<open>
  A zone is a JavaScript object: a finite map from property names to values. Reading a
  property that is absent yields \<open>undefined\<close>.
\<close>

type_synonym zone = "string \<Rightarrow> jsval option"

definition get_prop :: "zone \<Rightarrow> string \<Rightarrow> jsval" where
  "get_prop z k = (case z k of None \<Rightarrow> JUndefined | Some v \<Rightarrow> v)"

section \<open>HeatmapView (frontend/heatmapView.js)\<close>

text \<open>The constructor's constants.\<close>

definition HeatmapView_RECOVERED_THRESHOLD :: jsval where
  "HeatmapView_RECOVERED_THRESHOLD = JNum 20"

definition HeatmapView_HEALING_THRESHOLD :: jsval where
  "HeatmapView_HEALING_THRESHOLD = JNum (- 20)"

definition HeatmapView_stateColors :: "string \<Rightarrow> string option" where
  "HeatmapView_stateColors =
     [''needs_restoration'' \<mapsto> ''#F4D03F'',
      ''healing'' \<mapsto> ''#52BE80'',
      ''recovered'' \<mapsto> ''#5DADE2'']"

definition HeatmapView_stateMessages :: "string \<Rightarrow> string option" where
  "HeatmapView_stateMessages =
     [''needs_restoration'' \<mapsto> ''This space needs care'',
      ''healing'' \<mapsto> ''This space is healing'',
      ''recovered'' \<mapsto> ''This space has recovered'']"

text \<open>\<open>HeatmapView.calculateState(zone, mapType)\<close>, branch by branch.\<close>

definition HeatmapView_calculateState :: "zone \<Rightarrow> string \<Rightarrow> string" where
  "HeatmapView_calculateState zone mapType =
     (let (debt, restore) =
        (if mapType = ''vape'' then
           (Val (js_or (js_or (get_prop zone ''vape_debt'') (get_prop zone ''vapeDebt'')) (JNum 0)),
            Val (js_or (js_or (get_prop zone ''vape_restore'') (get_prop zone ''vapeRestore'')) (JNum 0)))
         else if mapType = ''smoke'' then
           (Val (js_or (js_or (get_prop zone ''smoke_debt'') (get_prop zone ''smokeDebt'')) (JNum 0)),
            Val (js_or (js_or (get_prop zone ''smoke_restore'') (get_prop zone ''smokeRestore'')) (JNum 0)))
         else if mapType = ''all'' then
           (let vapeDebt = js_or (js_or (get_prop zone ''vape_debt'') (get_prop zone ''vapeDebt'')) (JNum 0);
                vapeRestore = js_or (js_or (get_prop zone ''vape_restore'') (get_prop zone ''vapeRestore'')) (JNum 0);
                smokeDebt = js_or (js_or (get_prop zone ''smoke_debt'') (get_prop zone ''smokeDebt'')) (JNum 0);
                smokeRestore = js_or (js_or (get_prop zone ''smoke_restore'') (get_prop zone ''smokeRestore'')) (JNum 0)
            in (js_add (Val vapeDebt) (Val smokeDebt), js_add (Val vapeRestore) (Val smokeRestore)))
         else
           (Val (js_or (js_or (get_prop zone ''vape_debt'') (get_prop zone ''vapeDebt'')) (JNum 0)),
            Val (js_or (js_or (get_prop zone ''vape_restore'') (get_prop zone ''vapeRestore'')) (JNum 0))));
          netScore = js_sub restore debt
      in if js_gt netScore (Val HeatmapView_RECOVERED_THRESHOLD) then ''recovered''
         else if js_gt netScore (Val HeatmapView_HEALING_THRESHOLD) then ''healing''
         else ''needs_restoration'')"

section \<open>ZoneInspector (frontend/bottomSheetManager.js)\<close>

definition ZoneInspector_stateMessages :: "string \<Rightarrow> string option" where
  "ZoneInspector_stateMessages =
     [''needs_restoration'' \<mapsto> ''This space needs care'',
      ''healing'' \<mapsto> ''This space is healing'',
      ''recovered'' \<mapsto> ''This space has recovered'']"

definition ZoneInspector_stateColors :: "string \<Rightarrow> string option" where
  "ZoneInspector_stateColors =
     [''needs_restoration'' \<mapsto> ''#F4D03F'',
      ''healing'' \<mapsto> ''#52BE80'',
      ''recovered'' \<mapsto> ''#5DADE2'']"

text \<open>\<open>ZoneInspector.calculateState(zoneData, mapType)\<close>, with its local thresholds.\<close>

definition ZoneInspector_calculateState :: "zone \<Rightarrow> string \<Rightarrow> string" where
  "ZoneInspector_calculateState zoneData mapType =
     (let RECOVERED_THRESHOLD = Val (JNum 20);
          HEALING_THRESHOLD = Val (JNum (- 20));
          (debt, restore) =
        (if mapType = ''vape'' then
           (Val (js_or (js_or (get_prop zoneData ''vape_debt'') (get_prop zoneData ''vapeDebt'')) (JNum 0)),
            Val (js_or (js_or (get_prop zoneData ''vape_restore'') (get_prop zoneData ''vapeRestore'')) (JNum 0)))
         else if mapType = ''smoke'' then
           (Val (js_or (js_or (get_prop zoneData ''smoke_debt'') (get_prop zoneData ''smokeDebt'')) (JNum 0)),
            Val (js_or (js_or (get_prop zoneData ''smoke_restore'') (get_prop zoneData ''smokeRestore'')) (JNum 0)))
         else if mapType = ''all'' then
           (let vapeDebt = js_or (js_or (get_prop zoneData ''vape_debt'') (get_prop zoneData ''vapeDebt'')) (JNum 0);
                vapeRestore = js_or (js_or (get_prop zoneData ''vape_restore'') (get_prop zoneData ''vapeRestore'')) (JNum 0);
                smokeDebt = js_or (js_or (get_prop zoneData ''smoke_debt'') (get_prop zoneData ''smokeDebt'')) (JNum 0);
                smokeRestore = js_or (js_or (get_prop zoneData ''smoke_restore'') (get_prop zoneData ''smokeRestore'')) (JNum 0)
            in (js_add (Val vapeDebt) (Val smokeDebt), js_add (Val vapeRestore) (Val smokeRestore)))
         else
           (Val (js_or (js_or (get_prop zoneData ''vape_debt'') (get_prop zoneData ''vapeDebt'')) (JNum 0)),
            Val (js_or (js_or (get_prop zoneData ''vape_restore'') (get_prop zoneData ''vapeRestore'')) (JNum 0))));
          netScore = js_sub restore debt
      in if js_gt netScore RECOVERED_THRESHOLD then ''recovered''
         else if js_gt netScore HEALING_THRESHOLD then ''healing''
         else ''needs_restoration'')"

text \<open>
  \<open>ZoneInspector.calculateProgressInfo(zoneData, mapType, currentState)\<close> returns a markup
  fragment. The model returns what the fragment is assembled from: the progress items in
  the order they are appended, each with the number interpolated into it, and the three
  values of the closing score line (net score, restore, debt).
\<close>

datatype progress_item =
    PointsToHealing jsvalue
  | PointsToRecovered jsvalue
  | FullyRecovered

record progress_info =
  items :: "progress_item list"
  score_line :: "jsvalue \<times> jsvalue \<times> jsvalue"

definition ZoneInspector_calculateProgressInfo ::
    "zone \<Rightarrow> string \<Rightarrow> string \<Rightarrow> progress_info" where
  "ZoneInspector_calculateProgressInfo zoneData mapType currentState =
     (let RECOVERED_THRESHOLD = Val (JNum 20);
          HEALING_THRESHOLD = Val (JNum (- 20));
          (debt, restore) =
        (if mapType = ''vape'' then
           (Val (js_or (js_or (get_prop zoneData ''vape_debt'') (get_prop zoneData ''vapeDebt'')) (JNum 0)),
            Val (js_or (js_or (get_prop zoneData ''vape_restore'') (get_prop zoneData ''vapeRestore'')) (JNum 0)))
         else if mapType = ''smoke'' then
           (Val (js_or (js_or (get_prop zoneData ''smoke_debt'') (get_prop zoneData ''smokeDebt'')) (JNum 0)),
            Val (js_or (js_or (get_prop zoneData ''smoke_restore'') (get_prop zoneData ''smokeRestore'')) (JNum 0)))
         else if mapType = ''all'' then
           (let vapeDebt = js_or (js_or (get_prop zoneData ''vape_debt'') (get_prop zoneData ''vapeDebt'')) (JNum 0);
                vapeRestore = js_or (js_or (get_prop zoneData ''vape_restore'') (get_prop zoneData ''vapeRestore'')) (JNum 0);
                smokeDebt = js_or (js_or (get_prop zoneData ''smoke_debt'') (get_prop zoneData ''smokeDebt'')) (JNum 0);
                smokeRestore = js_or (js_or (get_prop zoneData ''smoke_restore'') (get_prop zoneData ''smokeRestore'')) (JNum 0)
            in (js_add (Val vapeDebt) (Val smokeDebt), js_add (Val vapeRestore) (Val smokeRestore)))
         else
           (Val (js_or (js_or (get_prop zoneData ''vape_debt'') (get_prop zoneData ''vapeDebt'')) (JNum 0)),
            Val (js_or (js_or (get_prop zoneData ''vape_restore'') (get_prop zoneData ''vapeRestore'')) (JNum 0))));
          netScore = js_sub restore debt;
          progress =
            (if currentState = ''needs_restoration'' then
               (let pointsToHealing =
                      Math_max (Val (JNum 0))
                        (js_add (js_sub HEALING_THRESHOLD netScore) (Val (JNum 1)));
                    pointsToRecovered =
                      Math_max (Val (JNum 0))
                        (js_add (js_sub RECOVERED_THRESHOLD netScore) (Val (JNum 1)))
                in [PointsToHealing pointsToHealing, PointsToRecovered pointsToRecovered])
             else if currentState = ''healing'' then
               (let pointsToRecovered =
                      Math_max (Val (JNum 0))
                        (js_add (js_sub RECOVERED_THRESHOLD netScore) (Val (JNum 1)))
                in [PointsToRecovered pointsToRecovered])
             else if currentState = ''recovered'' then [FullyRecovered]
             else [])
      in \<lparr>items = progress, score_line = (netScore, restore, debt)\<rparr>)"

section \<open>The specification's reading of a zone\<close>

text \<open>
  The numeric score the specification attributes to a pair of property names: the
  snake-case value when it is truthy, otherwise the camel-case value when that one is
  truthy, otherwise \<open>0\<close>. A truthy value is a non-zero number or \<open>true\<close>, which counts
  as \<open>1\<close> in arithmetic.
\<close>

definition num_of :: "jsval \<Rightarrow> int" where
  "num_of v = (case v of JNum n \<Rightarrow> n | JBool b \<Rightarrow> (if b then 1 else 0) | _ \<Rightarrow> 0)"

definition spec_score :: "zone \<Rightarrow> string \<Rightarrow> string \<Rightarrow> int" where
  "spec_score z snake camel =
     (if truthy (get_prop z snake) then num_of (get_prop z snake)
      else if truthy (get_prop z camel) then num_of (get_prop z camel)
      else 0)"

text \<open>
  The selection rule of the specification, in exact integer arithmetic; an unknown view
  mode selects as \<open>vape\<close>.
\<close>

definition spec_debt :: "zone \<Rightarrow> string \<Rightarrow> int" where
  "spec_debt z viewMode =
     (if viewMode = ''smoke'' then spec_score z ''smoke_debt'' ''smokeDebt''
      else if viewMode = ''all'' then
        spec_score z ''vape_debt'' ''vapeDebt'' + spec_score z ''smoke_debt'' ''smokeDebt''
      else spec_score z ''vape_debt'' ''vapeDebt'')"

definition spec_restore :: "zone \<Rightarrow> string \<Rightarrow> int" where
  "spec_restore z viewMode =
     (if viewMode = ''smoke'' then spec_score z ''smoke_restore'' ''smokeRestore''
      else if viewMode = ''all'' then
        spec_score z ''vape_restore'' ''vapeRestore'' + spec_score z ''smoke_restore'' ''smokeRestore''
      else spec_score z ''vape_restore'' ''vapeRestore'')"

definition spec_net :: "zone \<Rightarrow> string \<Rightarrow> int" where
  "spec_net z viewMode = spec_restore z viewMode - spec_debt z viewMode"

text \<open>The threshold rule of the specification, on a net score.\<close>

definition spec_state :: "int \<Rightarrow> string" where
  "spec_state net =
     (if net > 20 then ''recovered''
      else if net > - 20 then ''healing''
      else ''needs_restoration'')"

text \<open>The order \<open>needs_restoration < healing < recovered\<close>.\<close>

definition state_rank :: "string \<Rightarrow> nat" where
  "state_rank s =
     (if s = ''recovered'' then 2 else if s = ''healing'' then 1 else 0)"

text \<open>A zone carrying the four camel-case fields of the specification's data model.\<close>

definition zone4 :: "int \<Rightarrow> int \<Rightarrow> int \<Rightarrow> int \<Rightarrow> zone" where
  "zone4 vapeDebt vapeRestore smokeDebt smokeRestore =
     [''vapeDebt'' \<mapsto> JNum vapeDebt,
      ''vapeRestore'' \<mapsto> JNum vapeRestore,
      ''smokeDebt'' \<mapsto> JNum smokeDebt,
      ''smokeRestore'' \<mapsto> JNum smokeRestore]"

text \<open>
  The value the specification lets a pair of property names stand for, and the zone that
  holds exactly these values under the camel-case names.
\<close>

definition spec_pick :: "zone \<Rightarrow> string \<Rightarrow> string \<Rightarrow> jsval" where
  "spec_pick z snake camel =
     (if truthy (get_prop z snake) then get_prop z snake
      else if truthy (get_prop z camel) then get_prop z camel
      else JNum 0)"

definition by_precedence :: "zone \<Rightarrow> zone" where
  "by_precedence z =
     [''vapeDebt'' \<mapsto> spec_pick z ''vape_debt'' ''vapeDebt'',
      ''vapeRestore'' \<mapsto> spec_pick z ''vape_restore'' ''vapeRestore'',
      ''smokeDebt'' \<mapsto> spec_pick z ''smoke_debt'' ''smokeDebt'',
      ''smokeRestore'' \<mapsto> spec_pick z ''smoke_restore'' ''smokeRestore'']"

text \<open>
  What the code computes, in terms of the selected scores: the net score as a binary64
  number, and the state that the two threshold tests give for a number.
\<close>

definition binary64_net :: "zone \<Rightarrow> string \<Rightarrow> number" where
  "binary64_net z viewMode =
     (if viewMode = ''smoke'' then
        to_binary64 (spec_score z ''smoke_restore'' ''smokeRestore'' - spec_score z ''smoke_debt'' ''smokeDebt'')
      else if viewMode = ''all'' then
        number_sub
          (to_binary64 (spec_score z ''vape_restore'' ''vapeRestore'' + spec_score z ''smoke_restore'' ''smokeRestore''))
          (to_binary64 (spec_score z ''vape_debt'' ''vapeDebt'' + spec_score z ''smoke_debt'' ''smokeDebt''))
      else
        to_binary64 (spec_score z ''vape_restore'' ''vapeRestore'' - spec_score z ''vape_debt'' ''vapeDebt''))"

definition number_state :: "number \<Rightarrow> string" where
  "number_state x =
     (if number_gt x (Finite 20) then ''recovered''
      else if number_gt x (Finite (- 20)) then ''healing''
      else ''needs_restoration'')"

definition number_le :: "number \<Rightarrow> number \<Rightarrow> bool" where
  "number_le x y =
     (case (x, y) of
        (NegInfinity, _) \<Rightarrow> True
      | (_, PosInfinity) \<Rightarrow> True
      | (Finite a, Finite b) \<Rightarrow> a \<le> b
      | _ \<Rightarrow> False)"

section \<open>Calls of \<open>HeatmapView.calculateState\<close> with arbitrary arguments\<close>

text \<open>
  The function can raise. Its first argument may be \<open>null\<close> or \<open>undefined\<close>, and then
  the first property read raises a TypeError. A property may hold a Symbol, on which
  ToNumeric raises a TypeError, or a BigInt, which \<open>+\<close> and \<open>-\<close> refuse to mix with a
  number. The embedding below is the same function over these wider values, with the
  error as a result; strings and objects as property values stay outside.
\<close>

datatype js_error = TypeError

datatype wvalue = Plain jsvalue | Symbol | BigInt int

datatype zone_arg = ZObject "string \<Rightarrow> wvalue option" | ZNull | ZUndefined

fun w_truthy :: "wvalue \<Rightarrow> bool" where
  "w_truthy (Plain (Val v)) = truthy v"
| "w_truthy (Plain JInfinity) = True"
| "w_truthy (Plain JNegInfinity) = True"
| "w_truthy Symbol = True"
| "w_truthy (BigInt n) = (n \<noteq> 0)"

definition w_or :: "wvalue \<Rightarrow> wvalue \<Rightarrow> wvalue" where
  "w_or a b = (if w_truthy a then a else b)"

text \<open>ToNumeric: a number or a BigInt; a Symbol raises.\<close>

datatype numeric = Num number | Big int

fun to_numeric :: "wvalue \<Rightarrow> js_error + numeric" where
  "to_numeric (Plain v) = Inr (Num (to_number v))"
| "to_numeric Symbol = Inl TypeError"
| "to_numeric (BigInt n) = Inr (Big n)"

fun numeric_add :: "numeric \<Rightarrow> numeric \<Rightarrow> js_error + wvalue" where
  "numeric_add (Num x) (Num y) = Inr (Plain (of_number (number_add x y)))"
| "numeric_add (Big a) (Big b) = Inr (BigInt (a + b))"
| "numeric_add (Num x) (Big b) = Inl TypeError"
| "numeric_add (Big a) (Num y) = Inl TypeError"

fun numeric_sub :: "numeric \<Rightarrow> numeric \<Rightarrow> js_error + wvalue" where
  "numeric_sub (Num x) (Num y) = Inr (Plain (of_number (number_sub x y)))"
| "numeric_sub (Big a) (Big b) = Inr (BigInt (a - b))"
| "numeric_sub (Num x) (Big b) = Inl TypeError"
| "numeric_sub (Big a) (Num y) = Inl TypeError"

text \<open>A BigInt and a number are compared by their mathematical values.\<close>

fun numeric_gt :: "numeric \<Rightarrow> numeric \<Rightarrow> bool" where
  "numeric_gt (Num x) (Num y) = number_gt x y"
| "numeric_gt (Big a) (Big b) = (a > b)"
| "numeric_gt (Num x) (Big b) = number_gt x (Finite b)"
| "numeric_gt (Big a) (Num y) = number_gt (Finite a) y"

definition w_add :: "wvalue \<Rightarrow> wvalue \<Rightarrow> js_error + wvalue" where
  "w_add a b =
     (case to_numeric a of
        Inl e \<Rightarrow> Inl e
      | Inr x \<Rightarrow> (case to_numeric b of Inl e \<Rightarrow> Inl e | Inr y \<Rightarrow> numeric_add x y))"

definition w_sub :: "wvalue \<Rightarrow> wvalue \<Rightarrow> js_error + wvalue" where
  "w_sub a b =
     (case to_numeric a of
        Inl e \<Rightarrow> Inl e
      | Inr x \<Rightarrow> (case to_numeric b of Inl e \<Rightarrow> Inl e | Inr y \<Rightarrow> numeric_sub x y))"

definition w_gt :: "wvalue \<Rightarrow> wvalue \<Rightarrow> js_error + bool" where
  "w_gt a b =
     (case to_numeric a of
        Inl e \<Rightarrow> Inl e
      | Inr x \<Rightarrow> (case to_numeric b of Inl e \<Rightarrow> Inl e | Inr y \<Rightarrow> Inr (numeric_gt x y)))"

definition w_prop :: "(string \<Rightarrow> wvalue option) \<Rightarrow> string \<Rightarrow> wvalue" where
  "w_prop z k = (case z k of None \<Rightarrow> Plain (Val JUndefined) | Some v \<Rightarrow> v)"

text \<open>
  \<open>HeatmapView.calculateState(zone, mapType)\<close> on any first argument. Every branch starts
  by reading a property of \<open>zone\<close>, which raises when \<open>zone\<close> is \<open>null\<close> or
  \<open>undefined\<close>.
\<close>

definition HeatmapView_calculateState_call :: "zone_arg \<Rightarrow> string \<Rightarrow> js_error + string" where
  "HeatmapView_calculateState_call arg mapType =
     (case arg of
        ZNull \<Rightarrow> Inl TypeError
      | ZUndefined \<Rightarrow> Inl TypeError
      | ZObject zone \<Rightarrow>
          (let selected =
             (if mapType = ''vape'' then
                Inr (w_or (w_or (w_prop zone ''vape_debt'') (w_prop zone ''vapeDebt'')) (Plain (Val (JNum 0))),
                     w_or (w_or (w_prop zone ''vape_restore'') (w_prop zone ''vapeRestore'')) (Plain (Val (JNum 0))))
              else if mapType = ''smoke'' then
                Inr (w_or (w_or (w_prop zone ''smoke_debt'') (w_prop zone ''smokeDebt'')) (Plain (Val (JNum 0))),
                     w_or (w_or (w_prop zone ''smoke_restore'') (w_prop zone ''smokeRestore'')) (Plain (Val (JNum 0))))
              else if mapType = ''all'' then
                (let vapeDebt = w_or (w_or (w_prop zone ''vape_debt'') (w_prop zone ''vapeDebt'')) (Plain (Val (JNum 0)));
                     vapeRestore = w_or (w_or (w_prop zone ''vape_restore'') (w_prop zone ''vapeRestore'')) (Plain (Val (JNum 0)));
                     smokeDebt = w_or (w_or (w_prop zone ''smoke_debt'') (w_prop zone ''smokeDebt'')) (Plain (Val (JNum 0)));
                     smokeRestore = w_or (w_or (w_prop zone ''smoke_restore'') (w_prop zone ''smokeRestore'')) (Plain (Val (JNum 0)))
                 in case w_add vapeDebt smokeDebt of
                      Inl e \<Rightarrow> Inl e
                    | Inr debt \<Rightarrow>
                        (case w_add vapeRestore smokeRestore of
                           Inl e \<Rightarrow> Inl e
                         | Inr restore \<Rightarrow> Inr (debt, restore)))
              else
                Inr (w_or (w_or (w_prop zone ''vape_debt'') (w_prop zone ''vapeDebt'')) (Plain (Val (JNum 0))),
                     w_or (w_or (w_prop zone ''vape_restore'') (w_prop zone ''vapeRestore'')) (Plain (Val (JNum 0)))))
           in case selected of
                Inl e \<Rightarrow> Inl e
              | Inr (debt, restore) \<Rightarrow>
                  (case w_sub restore debt of
                     Inl e \<Rightarrow> Inl e
                   | Inr netScore \<Rightarrow>
                       (case w_gt netScore (Plain (Val HeatmapView_RECOVERED_THRESHOLD)) of
                          Inl e \<Rightarrow> Inl e
                        | Inr True \<Rightarrow> Inr ''recovered''
                        | Inr False \<Rightarrow>
                            (case w_gt netScore (Plain (Val HeatmapView_HEALING_THRESHOLD)) of
                               Inl e \<Rightarrow> Inl e
                             | Inr True \<Rightarrow> Inr ''healing''
                             | Inr False \<Rightarrow> Inr ''needs_restoration'')))))"

text \<open>A zone object all of whose properties are values of the data model.\<close>

definition zone_object :: "zone \<Rightarrow> zone_arg" where
  "zone_object z = ZObject (\<lambda>k. map_option (\<lambda>v. Plain (Val v)) (z k))"

section \<open>Facts about binary64 rounding of integers\<close>

lemma rte_multiple: "p > 0 \<Longrightarrow> round_to_even p (k * p) = k * p"
  by (simp add: round_to_even_def)

lemma rte_bounds:
  assumes "p > 0"
  shows "(n div p) * p \<le> round_to_even p n" "round_to_even p n \<le> (n div p + 1) * p"
  using assms by (auto simp add: round_to_even_def Let_def algebra_simps)

lemma rte_mono:
  assumes "p > 0" "n \<le> n'"
  shows "round_to_even p n \<le> round_to_even p n'"
proof -
  have d: "n div p \<le> n' div p" using assms by (simp add: zdiv_mono1)
  show ?thesis
  proof (cases "n div p = n' div p")
    case True
    have "n mod p \<le> n' mod p"
      using assms True by (metis add_le_cancel_left mult_div_mod_eq)
    then show ?thesis using True assms
      by (auto simp add: round_to_even_def Let_def)
  next
    case False
    then have "n div p + 1 \<le> n' div p" using d by simp
    then have "(n div p + 1) * p \<le> (n' div p) * p"
      using assms(1) by (simp add: mult_right_mono)
    then show ?thesis
      using rte_bounds[OF assms(1), of n] rte_bounds[OF assms(1), of n'] by linarith
  qed
qed

lemma rte_le_multiple: "p > 0 \<Longrightarrow> n \<le> k * p \<Longrightarrow> round_to_even p n \<le> k * p"
  using rte_mono[of p n "k * p"] by (simp add: rte_multiple)

lemma rte_ge_multiple: "p > 0 \<Longrightarrow> k * p \<le> n \<Longrightarrow> k * p \<le> round_to_even p n"
  using rte_mono[of p "k * p" n] by (simp add: rte_multiple)

text \<open>Integers up to \<open>2^53\<close> in magnitude are doubles: rounding leaves them alone.\<close>

lemma rb_small:
  assumes "\<bar>n\<bar> \<le> 2 ^ 53"
  shows "round_binary64 n = n"
proof (cases "\<bar>n\<bar> = 2 ^ 53")
  case True
  have "bitlen \<bar>n\<bar> = 54" using True bitlen_twopow_add_eq[of 0 53] by simp
  then have r: "round_binary64 n = round_to_even 2 n"
    by (simp add: round_binary64_def shift_of_def)
  from True consider "n = 4503599627370496 * 2" | "n = (- 4503599627370496) * 2"
    by (auto simp add: abs_if split: if_splits)
  then show ?thesis
  proof cases
    case 1
    then show ?thesis using r rte_multiple[of 2 4503599627370496] by simp
  next
    case 2
    then show ?thesis using r rte_multiple[of 2 "- 4503599627370496"] by simp
  qed
next
  case False
  then have "\<bar>n\<bar> < 2 ^ nat 53" using assms by simp
  then have "bitlen \<bar>n\<bar> \<le> 53" using bitlen_le_iff_power[of "\<bar>n\<bar>" 53] by simp
  then show ?thesis by (simp add: round_binary64_def shift_of_def round_to_even_def)
qed

lemma shift_of_mono: "\<bar>a\<bar> \<le> \<bar>b\<bar> \<Longrightarrow> shift_of a \<le> shift_of b"
  unfolding shift_of_def bitlen_def by (simp add: floorlog_mono nat_mono)

lemma abs_lt_shift: "\<bar>n\<bar> < 2 ^ (53 + shift_of n)"
proof -
  have "bitlen \<bar>n\<bar> \<le> int (53 + shift_of n)" by (simp add: shift_of_def)
  then show ?thesis
    using bitlen_le_iff_power[of "\<bar>n\<bar>" "int (53 + shift_of n)"] by (simp add: nat_add_distrib)
qed

lemma abs_ge_shift: "shift_of n > 0 \<Longrightarrow> 2 ^ (52 + shift_of n) \<le> \<bar>n\<bar>"
proof -
  assume "shift_of n > 0"
  then have "int (53 + shift_of n) \<le> bitlen \<bar>n\<bar>" by (simp add: shift_of_def)
  then show ?thesis
    using bitlen_ge_iff_power[of "int (53 + shift_of n)" "\<bar>n\<bar>"] by (simp add: nat_add_distrib)
qed

lemma rb_upper: "round_binary64 n \<le> 2 ^ (53 + shift_of n)"
  unfolding round_binary64_def power_add using abs_lt_shift[of n]
  by (intro rte_le_multiple) (simp_all add: power_add)

lemma rb_lower: "- (2 ^ (53 + shift_of n)) \<le> round_binary64 n"
proof -
  have "(- (2 ^ 53)) * 2 ^ shift_of n \<le> round_to_even (2 ^ shift_of n) n"
    using abs_lt_shift[of n] by (intro rte_ge_multiple) (simp_all add: power_add)
  then show ?thesis by (simp add: round_binary64_def power_add)
qed

lemma rb_big_pos:
  assumes "n \<ge> 0" "shift_of n > 0"
  shows "2 ^ (52 + shift_of n) \<le> round_binary64 n"
  unfolding round_binary64_def power_add using abs_ge_shift[OF assms(2)] assms(1)
  by (intro rte_ge_multiple) (simp_all add: power_add)

lemma rb_big_neg:
  assumes "n \<le> 0" "shift_of n > 0"
  shows "round_binary64 n \<le> - (2 ^ (52 + shift_of n))"
proof -
  have "round_to_even (2 ^ shift_of n) n \<le> (- (2 ^ 52)) * 2 ^ shift_of n"
    using abs_ge_shift[OF assms(2)] assms(1) by (intro rte_le_multiple) (simp_all add: power_add)
  then show ?thesis by (simp add: round_binary64_def power_add)
qed

lemma rb_nonneg: "n \<ge> 0 \<Longrightarrow> round_binary64 n \<ge> 0"
  using rte_ge_multiple[of "2 ^ shift_of n" 0 n] by (simp add: round_binary64_def)

lemma rb_nonpos: "n \<le> 0 \<Longrightarrow> round_binary64 n \<le> 0"
  using rte_le_multiple[of "2 ^ shift_of n" n 0] by (simp add: round_binary64_def)

lemma pow_gap: "a < b \<Longrightarrow> (2::int) ^ (53 + a) \<le> 2 ^ (52 + b)"
  by (intro power_increasing) simp_all

lemma rb_mono_nonneg:
  assumes "0 \<le> a" "a \<le> b"
  shows "round_binary64 a \<le> round_binary64 b"
proof (cases "shift_of a = shift_of b")
  case True
  then show ?thesis using assms by (simp add: round_binary64_def rte_mono)
next
  case False
  have "shift_of a \<le> shift_of b" using assms by (intro shift_of_mono) simp
  then have lt: "shift_of a < shift_of b" using False by simp
  show ?thesis
    using pow_gap[OF lt] rb_upper[of a] rb_big_pos[of b] assms lt by linarith
qed

lemma rb_mono_nonpos:
  assumes "a \<le> b" "b \<le> 0"
  shows "round_binary64 a \<le> round_binary64 b"
proof (cases "shift_of a = shift_of b")
  case True
  then show ?thesis using assms by (simp add: round_binary64_def rte_mono)
next
  case False
  have "shift_of b \<le> shift_of a" using assms by (intro shift_of_mono) simp
  then have lt: "shift_of b < shift_of a" using False by simp
  show ?thesis
    using pow_gap[OF lt] rb_lower[of b] rb_big_neg[of a] assms lt by linarith
qed

text \<open>Rounding to the nearest double is monotone.\<close>

lemma rb_mono:
  assumes "a \<le> b"
  shows "round_binary64 a \<le> round_binary64 b"
proof -
  consider "0 \<le> a" | "b \<le> 0" | "a \<le> 0" "0 \<le> b" by linarith
  then show ?thesis
  proof cases
    case 1 then show ?thesis using assms rb_mono_nonneg by simp
  next
    case 2 then show ?thesis using assms rb_mono_nonpos by simp
  next
    case 3 then show ?thesis using rb_nonneg[of b] rb_nonpos[of a] by simp
  qed
qed

lemma to_binary64_small: "\<bar>n\<bar> \<le> 2 ^ 53 \<Longrightarrow> to_binary64 n = Finite n"
  by (auto simp add: to_binary64_def rb_small)

lemma to_binary64_mono: "a \<le> b \<Longrightarrow> number_le (to_binary64 a) (to_binary64 b)"
  using rb_mono[of a b] by (auto simp add: to_binary64_def number_le_def Let_def)

text \<open>
  The two threshold tests cannot see the rounding: a rounded integer is above 20, or
  above -20, exactly when the integer is.
\<close>

lemma rb_gt_small:
  assumes "\<bar>t\<bar> \<le> 2 ^ 52"
  shows "round_binary64 n > t \<longleftrightarrow> n > t"
proof
  assume "round_binary64 n > t"
  show "n > t"
  proof (rule ccontr)
    assume "\<not> n > t"
    then have "round_binary64 n \<le> round_binary64 t" by (intro rb_mono) simp
    moreover have "round_binary64 t = t" using assms by (intro rb_small) simp
    ultimately show False using \<open>round_binary64 n > t\<close> by simp
  qed
next
  assume "n > t"
  then have "round_binary64 (t + 1) \<le> round_binary64 n" by (intro rb_mono) simp
  moreover have "round_binary64 (t + 1) = t + 1" using assms by (intro rb_small) simp
  ultimately show "round_binary64 n > t" by simp
qed

lemma number_gt_to_binary64:
  assumes "\<bar>t\<bar> \<le> 2 ^ 52"
  shows "number_gt (to_binary64 n) (Finite t) \<longleftrightarrow> n > t"
proof -
  have "round_binary64 n > t \<longleftrightarrow> n > t" using assms by (rule rb_gt_small)
  moreover have "t < 2 ^ 1024" "- (2 ^ 1024) < t" using assms by simp_all
  ultimately show ?thesis
    by (auto simp add: to_binary64_def Let_def)
qed

lemma number_state_to_binary64: "number_state (to_binary64 n) = spec_state n"
  by (simp add: number_state_def spec_state_def number_gt_to_binary64)

lemma number_state_rank_mono:
  "number_le x y \<Longrightarrow> state_rank (number_state x) \<le> state_rank (number_state y)"
  by (cases x; cases y) (auto simp add: number_le_def number_state_def state_rank_def)

lemma number_sub_mono:
  "number_le x y \<Longrightarrow>
     state_rank (number_state (number_sub x d)) \<le> state_rank (number_state (number_sub y d))"
proof (cases x; cases y; cases d)
  fix a b c
  assume le: "number_le x y" and x: "x = Finite a" and y: "y = Finite b" and d: "d = Finite c"
  then have "a - c \<le> b - c" by (simp add: number_le_def)
  then show ?thesis using x y d
    by (simp add: number_state_rank_mono to_binary64_mono)
qed (auto simp add: number_le_def number_state_def state_rank_def)

section \<open>The code in terms of the selected scores\<close>

lemma to_number_default:
  "to_number (Val (js_or (js_or a b) (JNum 0))) =
     Finite (if truthy a then num_of a else if truthy b then num_of b else 0)"
  by (cases a; cases b) (simp_all add: js_or_def num_of_def)

lemma get_prop_score:
  "to_number (Val (js_or (js_or (get_prop z s) (get_prop z c)) (JNum 0))) = Finite (spec_score z s c)"
  by (simp add: to_number_default spec_score_def)

lemma to_number_of_number: "to_number (of_number x) = x"
  by (cases x) simp_all

lemma Heatmap_net:
  "HeatmapView_calculateState z m = number_state (binary64_net z m)"
  by (simp add: HeatmapView_calculateState_def HeatmapView_RECOVERED_THRESHOLD_def
      HeatmapView_HEALING_THRESHOLD_def js_sub_def js_add_def js_gt_def get_prop_score
      to_number_of_number number_state_def binary64_net_def Let_def)

lemma Inspector_net:
  "ZoneInspector_calculateState z m = number_state (binary64_net z m)"
  by (simp add: ZoneInspector_calculateState_def js_sub_def js_add_def js_gt_def get_prop_score
      to_number_of_number number_state_def binary64_net_def Let_def)

text \<open>
  In the modes \<open>vape\<close> and \<open>smoke\<close>, and in mode \<open>all\<close> when both sums are at most
  \<open>2^53\<close> in magnitude, the state is the specification's state of the exact net score.
\<close>

lemma binary64_net_single:
  "m \<noteq> ''all'' \<Longrightarrow> number_state (binary64_net z m) = spec_state (spec_net z m)"
  by (simp add: binary64_net_def number_state_to_binary64 spec_net_def spec_debt_def
      spec_restore_def)

lemma binary64_net_bounded:
  assumes "\<bar>spec_debt z m\<bar> \<le> 2 ^ 53" "\<bar>spec_restore z m\<bar> \<le> 2 ^ 53"
  shows "number_state (binary64_net z m) = spec_state (spec_net z m)"
proof (cases "m = ''all''")
  case False
  then show ?thesis by (rule binary64_net_single)
next
  case True
  then show ?thesis using assms
    by (simp add: binary64_net_def spec_net_def spec_debt_def spec_restore_def
        to_binary64_small number_state_to_binary64)
qed

lemma spec_state_cases:
  "(spec_state n = ''recovered'' \<longleftrightarrow> n > 20)
   \<and> (spec_state n = ''healing'' \<longleftrightarrow> n \<le> 20 \<and> n > - 20)
   \<and> (spec_state n = ''needs_restoration'' \<longleftrightarrow> n \<le> - 20)"
  by (simp add: spec_state_def)

lemma number_state_range:
  "number_state x \<in> {''needs_restoration'', ''healing'', ''recovered''}"
  by (simp add: number_state_def)

lemma spec_score_zone4:
  "spec_score (zone4 vd vr sd sr) ''vape_debt'' ''vapeDebt'' = vd"
  "spec_score (zone4 vd vr sd sr) ''vape_restore'' ''vapeRestore'' = vr"
  "spec_score (zone4 vd vr sd sr) ''smoke_debt'' ''smokeDebt'' = sd"
  "spec_score (zone4 vd vr sd sr) ''smoke_restore'' ''smokeRestore'' = sr"
  by (simp_all add: spec_score_def zone4_def get_prop_def num_of_def)

lemma spec_parts_zone4:
  "spec_debt (zone4 vd vr sd sr) ''vape'' = vd"
  "spec_restore (zone4 vd vr sd sr) ''vape'' = vr"
  "spec_debt (zone4 vd vr sd sr) ''smoke'' = sd"
  "spec_restore (zone4 vd vr sd sr) ''smoke'' = sr"
  "spec_debt (zone4 vd vr sd sr) ''all'' = vd + sd"
  "spec_restore (zone4 vd vr sd sr) ''all'' = vr + sr"
  by (simp_all add: spec_debt_def spec_restore_def spec_score_zone4)

lemma spec_net_zone4:
  "spec_net (zone4 vd vr sd sr) ''vape'' = vr - vd"
  "spec_net (zone4 vd vr sd sr) ''smoke'' = sr - sd"
  "spec_net (zone4 vd vr sd sr) ''all'' = (vr + sr) - (vd + sd)"
  by (simp_all add: spec_net_def spec_parts_zone4)

text \<open>Overwriting a falsy property with \<open>0\<close> leaves every selected score as it was.\<close>

lemma spec_score_falsy_upd:
  assumes "\<not> truthy (get_prop z k)"
  shows "spec_score (z(k \<mapsto> JNum 0)) s c = spec_score z s c"
  using assms by (auto simp add: spec_score_def get_prop_def num_of_def)

lemma binary64_net_falsy_upd:
  assumes "\<not> truthy (get_prop z k)"
  shows "binary64_net (z(k \<mapsto> JNum 0)) m = binary64_net z m"
  using assms by (simp add: binary64_net_def spec_score_falsy_upd)

lemma spec_score_by_precedence:
  "spec_score (by_precedence z) ''vape_debt'' ''vapeDebt'' = spec_score z ''vape_debt'' ''vapeDebt''"
  "spec_score (by_precedence z) ''vape_restore'' ''vapeRestore'' = spec_score z ''vape_restore'' ''vapeRestore''"
  "spec_score (by_precedence z) ''smoke_debt'' ''smokeDebt'' = spec_score z ''smoke_debt'' ''smokeDebt''"
  "spec_score (by_precedence z) ''smoke_restore'' ''smokeRestore'' = spec_score z ''smoke_restore'' ''smokeRestore''"
  by (simp_all add: spec_score_def by_precedence_def spec_pick_def get_prop_def num_of_def)

lemma binary64_net_by_precedence: "binary64_net (by_precedence z) m = binary64_net z m"
  by (simp add: binary64_net_def spec_score_by_precedence)

lemma binary64_net_mono:
  assumes "spec_debt z' m = spec_debt z m" "spec_restore z m \<le> spec_restore z' m"
  shows "state_rank (number_state (binary64_net z m))
           \<le> state_rank (number_state (binary64_net z' m))"
proof (cases "m = ''all''")
  case False
  then show ?thesis using assms
    by (simp add: binary64_net_single spec_net_def spec_state_def state_rank_def)
next
  case True
  have d: "spec_score z' ''vape_debt'' ''vapeDebt'' + spec_score z' ''smoke_debt'' ''smokeDebt''
         = spec_score z ''vape_debt'' ''vapeDebt'' + spec_score z ''smoke_debt'' ''smokeDebt''"
    using assms(1) True by (simp add: spec_debt_def)
  have r: "spec_score z ''vape_restore'' ''vapeRestore'' + spec_score z ''smoke_restore'' ''smokeRestore''
         \<le> spec_score z' ''vape_restore'' ''vapeRestore'' + spec_score z' ''smoke_restore'' ''smokeRestore''"
    using assms(2) True by (simp add: spec_restore_def)
  show ?thesis unfolding binary64_net_def using True d
    by (simp add: number_sub_mono to_binary64_mono[OF r])
qed

lemma single_mode_state:
  "m \<noteq> ''all'' \<Longrightarrow> HeatmapView_calculateState z m = spec_state (spec_net z m)"
  "m \<noteq> ''all'' \<Longrightarrow> ZoneInspector_calculateState z m = spec_state (spec_net z m)"
  by (simp_all add: Heatmap_net Inspector_net binary64_net_single)

lemma bounded_state:
  assumes "\<bar>spec_debt z m\<bar> \<le> 2 ^ 53" "\<bar>spec_restore z m\<bar> \<le> 2 ^ 53"
  shows "HeatmapView_calculateState z m = spec_state (spec_net z m)"
    and "ZoneInspector_calculateState z m = spec_state (spec_net z m)"
  using assms by (simp_all add: Heatmap_net Inspector_net binary64_net_bounded)

lemma guarded_state:
  assumes "m = ''all'' \<longrightarrow> \<bar>spec_debt z m\<bar> \<le> 2 ^ 53 \<and> \<bar>spec_restore z m\<bar> \<le> 2 ^ 53"
  shows "HeatmapView_calculateState z m = spec_state (spec_net z m)"
    and "ZoneInspector_calculateState z m = spec_state (spec_net z m)"
  using assms single_mode_state[of m z] bounded_state[of z m] by blast+

text \<open>The numbers that \<open>calculateProgressInfo\<close> interpolates, when nothing is rounded.\<close>

lemma binary64_net_exact:
  assumes "m = ''all'' \<longrightarrow> \<bar>spec_debt z m\<bar> \<le> 2 ^ 53 \<and> \<bar>spec_restore z m\<bar> \<le> 2 ^ 53"
      and "\<bar>spec_net z m\<bar> \<le> 2 ^ 53"
  shows "binary64_net z m = Finite (spec_net z m)"
proof (cases "m = ''all''")
  case True
  then show ?thesis using assms
    by (simp add: binary64_net_def spec_net_def spec_debt_def spec_restore_def to_binary64_small)
next
  case False
  then show ?thesis using assms(2)
    by (auto simp add: binary64_net_def spec_net_def spec_debt_def spec_restore_def
        to_binary64_small)
qed

lemma progress_items_net:
  "items (ZoneInspector_calculateProgressInfo z m s) =
     (if s = ''needs_restoration'' then
        [PointsToHealing
           (Math_max (Val (JNum 0))
              (js_add (js_sub (Val (JNum (- 20))) (of_number (binary64_net z m))) (Val (JNum 1)))),
         PointsToRecovered
           (Math_max (Val (JNum 0))
              (js_add (js_sub (Val (JNum 20)) (of_number (binary64_net z m))) (Val (JNum 1))))]
      else if s = ''healing'' then
        [PointsToRecovered
           (Math_max (Val (JNum 0))
              (js_add (js_sub (Val (JNum 20)) (of_number (binary64_net z m))) (Val (JNum 1))))]
      else if s = ''recovered'' then [FullyRecovered]
      else [])"
  by (simp add: ZoneInspector_calculateProgressInfo_def js_sub_def js_add_def get_prop_score
      to_number_of_number binary64_net_def Let_def)

lemma points_exact:
  assumes "\<bar>t\<bar> \<le> 20" "\<bar>n\<bar> \<le> 2 ^ 53 - 21"
  shows "Math_max (Val (JNum 0)) (js_add (js_sub (Val (JNum t)) (Val (JNum n))) (Val (JNum 1)))
           = Val (JNum (max 0 (t - n + 1)))"
proof -
  have a: "to_binary64 (t - n) = Finite (t - n)" using assms by (intro to_binary64_small) simp
  have b: "to_binary64 (t - n + 1) = Finite (t - n + 1)" using assms by (intro to_binary64_small) simp
  show ?thesis
    by (simp add: Math_max_def js_add_def js_sub_def a b max_def)
qed

lemma progress_items_exact:
  assumes "m = ''all'' \<longrightarrow> \<bar>spec_debt z m\<bar> \<le> 2 ^ 53 \<and> \<bar>spec_restore z m\<bar> \<le> 2 ^ 53"
      and "\<bar>spec_net z m\<bar> \<le> 2 ^ 53 - 21"
  shows "items (ZoneInspector_calculateProgressInfo z m s) =
     (if s = ''needs_restoration'' then
        [PointsToHealing (Val (JNum (max 0 (- 20 - spec_net z m + 1)))),
         PointsToRecovered (Val (JNum (max 0 (20 - spec_net z m + 1))))]
      else if s = ''healing'' then
        [PointsToRecovered (Val (JNum (max 0 (20 - spec_net z m + 1))))]
      else if s = ''recovered'' then [FullyRecovered]
      else [])"
proof -
  have n: "binary64_net z m = Finite (spec_net z m)"
    using assms by (intro binary64_net_exact) simp_all
  have h: "Math_max (Val (JNum 0))
             (js_add (js_sub (Val (JNum (- 20))) (Val (JNum (spec_net z m)))) (Val (JNum 1)))
           = Val (JNum (max 0 (- 20 - spec_net z m + 1)))"
    using assms(2) by (intro points_exact) simp_all
  have r: "Math_max (Val (JNum 0))
             (js_add (js_sub (Val (JNum 20)) (Val (JNum (spec_net z m)))) (Val (JNum 1)))
           = Val (JNum (max 0 (20 - spec_net z m + 1)))"
    using assms(2) by (intro points_exact) simp_all
  show ?thesis
    by (simp only: progress_items_net n of_number.simps h r)
qed

section \<open>Calls on zone objects of the data model\<close>

lemma w_prop_zone:
  "w_prop (\<lambda>k. map_option (\<lambda>v. Plain (Val v)) (z k)) k = Plain (Val (get_prop z k))"
  by (simp add: w_prop_def get_prop_def split: option.splits)

lemma w_or_plain: "w_or (Plain (Val a)) (Plain (Val b)) = Plain (Val (js_or a b))"
  by (simp add: w_or_def js_or_def)

lemma w_add_plain: "w_add (Plain a) (Plain b) = Inr (Plain (js_add a b))"
  by (simp add: w_add_def js_add_def)

lemma w_sub_plain: "w_sub (Plain a) (Plain b) = Inr (Plain (js_sub a b))"
  by (simp add: w_sub_def js_sub_def)

lemma w_gt_plain: "w_gt (Plain a) (Plain b) = Inr (js_gt a b)"
  by (simp add: w_gt_def js_gt_def)

lemma call_zone_object:
  "HeatmapView_calculateState_call (zone_object z) m = Inr (HeatmapView_calculateState z m)"
  by (simp add: HeatmapView_calculateState_call_def zone_object_def HeatmapView_calculateState_def
      w_prop_zone w_or_plain w_add_plain w_sub_plain w_gt_plain Let_def)

text \<open>Outside the zone objects of the data model the call can raise.\<close>

lemma call_raises:
  "HeatmapView_calculateState_call ZNull m = Inl TypeError"
  "HeatmapView_calculateState_call ZUndefined m = Inl TypeError"
  "HeatmapView_calculateState_call (ZObject [''vapeDebt'' \<mapsto> Symbol]) ''vape'' = Inl TypeError"
  "HeatmapView_calculateState_call (ZObject [''vapeDebt'' \<mapsto> BigInt 5]) ''vape'' = Inl TypeError"
  "HeatmapView_calculateState_call
     (ZObject [''vapeDebt'' \<mapsto> BigInt 5, ''vapeRestore'' \<mapsto> BigInt 30]) ''vape'' = Inr ''recovered''"
  by (simp_all add: HeatmapView_calculateState_call_def w_prop_def w_or_def w_sub_def w_gt_def
      HeatmapView_RECOVERED_THRESHOLD_def HeatmapView_HEALING_THRESHOLD_def)

section \<open>Properties of the zone-state calculation\<close>

text \<open>
  C1, as amended. For every zone and every view mode among \<open>vape\<close>, \<open>smoke\<close> and
  \<open>all\<close>, where in mode \<open>all\<close> the sum of the two debts and the sum of the two restores
  are at most \<open>2^53\<close> in magnitude (so that the two additions are exact in binary64), and
  with the net score taken as the selected restore minus the selected debt: both copies
  of \<open>calculateState\<close> return \<open>recovered\<close> exactly when the net score is above 20,
  \<open>healing\<close> exactly when it is at most 20 and above -20, and \<open>needs_restoration\<close>
  exactly when it is at most -20. Both comparisons are strict.
\<close>

theorem calculateState_thresholds:
  assumes "viewMode \<in> {''vape'', ''smoke'', ''all''}"
      and "viewMode = ''all'' \<longrightarrow>
             \<bar>spec_debt z viewMode\<bar> \<le> 2 ^ 53 \<and> \<bar>spec_restore z viewMode\<bar> \<le> 2 ^ 53"
  shows "(HeatmapView_calculateState z viewMode = ''recovered'' \<longleftrightarrow> spec_net z viewMode > 20)
    \<and> (HeatmapView_calculateState z viewMode = ''healing''
          \<longleftrightarrow> spec_net z viewMode \<le> 20 \<and> spec_net z viewMode > - 20)
    \<and> (HeatmapView_calculateState z viewMode = ''needs_restoration''
          \<longleftrightarrow> spec_net z viewMode \<le> - 20)
    \<and> (ZoneInspector_calculateState z viewMode = ''recovered'' \<longleftrightarrow> spec_net z viewMode > 20)
    \<and> (ZoneInspector_calculateState z viewMode = ''healing''
          \<longleftrightarrow> spec_net z viewMode \<le> 20 \<and> spec_net z viewMode > - 20)
    \<and> (ZoneInspector_calculateState z viewMode = ''needs_restoration''
          \<longleftrightarrow> spec_net z viewMode \<le> - 20)"
proof -
  have h: "HeatmapView_calculateState z viewMode = spec_state (spec_net z viewMode)"
    using assms(2) by (rule guarded_state(1))
  have i: "ZoneInspector_calculateState z viewMode = spec_state (spec_net z viewMode)"
    using assms(2) by (rule guarded_state(2))
  show ?thesis unfolding h i using spec_state_cases by blast
qed

text \<open>
  The boundary cases of C1: a net score of 20 is \<open>healing\<close>, 21 is \<open>recovered\<close>, -20 is
  \<open>needs_restoration\<close> and -19 is \<open>healing\<close>.
\<close>

theorem calculateState_thresholds_witness:
  "spec_net (zone4 0 20 0 0) ''vape'' = 20
   \<and> HeatmapView_calculateState (zone4 0 20 0 0) ''vape'' = ''healing''
   \<and> spec_net (zone4 0 21 0 0) ''vape'' = 21
   \<and> HeatmapView_calculateState (zone4 0 21 0 0) ''vape'' = ''recovered''
   \<and> spec_net (zone4 0 0 20 0) ''smoke'' = - 20
   \<and> HeatmapView_calculateState (zone4 0 0 20 0) ''smoke'' = ''needs_restoration''
   \<and> \<bar>spec_debt (zone4 10 0 9 0) ''all''\<bar> \<le> 2 ^ 53
   \<and> \<bar>spec_restore (zone4 10 0 9 0) ''all''\<bar> \<le> 2 ^ 53
   \<and> spec_net (zone4 10 0 9 0) ''all'' = - 19
   \<and> ZoneInspector_calculateState (zone4 10 0 9 0) ''all'' = ''healing''"
  using calculateState_thresholds [of "''vape''" "zone4 0 20 0 0"]
    calculateState_thresholds [of "''vape''" "zone4 0 21 0 0"]
    calculateState_thresholds [of "''smoke''" "zone4 0 0 20 0"]
    calculateState_thresholds [of "''all''" "zone4 10 0 9 0"]
  by (simp add: spec_net_zone4 spec_parts_zone4)

text \<open>
  C1 as stated, for every zone, fails in mode \<open>all\<close>: the two sums are binary64
  additions. With vape debt 9007199254740972, vape restore 9007199254740991, smoke debt
  0 and smoke restore 2, the restore sum \<open>2^53 + 1\<close> is rounded to \<open>2^53\<close>; the net
  score of the selected pair is 21, above 20, and both copies return \<open>healing\<close>.
\<close>

theorem calculateState_thresholds_counterexample:
  "spec_net (zone4 9007199254740972 9007199254740991 0 2) ''all'' = 21
   \<and> HeatmapView_calculateState (zone4 9007199254740972 9007199254740991 0 2) ''all'' = ''healing''
   \<and> ZoneInspector_calculateState (zone4 9007199254740972 9007199254740991 0 2) ''all'' = ''healing''
   \<and> \<not> (HeatmapView_calculateState (zone4 9007199254740972 9007199254740991 0 2) ''all'' = ''recovered''
          \<longleftrightarrow> spec_net (zone4 9007199254740972 9007199254740991 0 2) ''all'' > 20)"
proof -
  have n: "spec_net (zone4 9007199254740972 9007199254740991 0 2) ''all'' = 21"
    by (simp add: spec_net_zone4)
  have h: "HeatmapView_calculateState (zone4 9007199254740972 9007199254740991 0 2) ''all'' = ''healing''"
    by code_simp
  have i: "ZoneInspector_calculateState (zone4 9007199254740972 9007199254740991 0 2) ''all'' = ''healing''"
    by code_simp
  show ?thesis unfolding n h i by simp
qed




text \<open>
  C3, as amended. Where nothing is rounded, that is where in mode \<open>all\<close> the two sums
  are at most \<open>2^53\<close> in magnitude and the net score is at most \<open>2^53 - 21\<close> in
  magnitude, \<open>calculateProgressInfo\<close> reports, for the current state
  \<open>needs_restoration\<close>, the points to healing \<open>max(0, -20 - net + 1)\<close> and the points
  to recovered \<open>max(0, 20 - net + 1)\<close>; for \<open>healing\<close> only the points to recovered; for
  \<open>recovered\<close> no points at all. At a net score of -25 in \<open>needs_restoration\<close> the two
  numbers are 6 and 46.
\<close>

theorem calculateProgressInfo_points:
  assumes "m = ''all'' \<longrightarrow> \<bar>spec_debt z m\<bar> \<le> 2 ^ 53 \<and> \<bar>spec_restore z m\<bar> \<le> 2 ^ 53"
      and "\<bar>spec_net z m\<bar> \<le> 2 ^ 53 - 21"
  shows "items (ZoneInspector_calculateProgressInfo z m ''needs_restoration'') =
     [PointsToHealing (Val (JNum (max 0 (- 20 - spec_net z m + 1)))),
      PointsToRecovered (Val (JNum (max 0 (20 - spec_net z m + 1))))]
   \<and> items (ZoneInspector_calculateProgressInfo z m ''healing'') =
     [PointsToRecovered (Val (JNum (max 0 (20 - spec_net z m + 1))))]
   \<and> items (ZoneInspector_calculateProgressInfo z m ''recovered'') = [FullyRecovered]"
  using progress_items_exact[OF assms] by simp

theorem calculateProgressInfo_points_witness:
  "\<bar>spec_net (zone4 25 0 0 0) ''vape''\<bar> \<le> 2 ^ 53 - 21
   \<and> spec_net (zone4 25 0 0 0) ''vape'' = - 25
   \<and> items (ZoneInspector_calculateProgressInfo (zone4 25 0 0 0) ''vape'' ''needs_restoration'') =
     [PointsToHealing (Val (JNum 6)), PointsToRecovered (Val (JNum 46))]
   \<and> items (ZoneInspector_calculateProgressInfo (zone4 25 0 0 0) ''vape'' ''healing'') =
     [PointsToRecovered (Val (JNum 46))]
   \<and> items (ZoneInspector_calculateProgressInfo (zone4 25 0 0 0) ''vape'' ''recovered'') =
     [FullyRecovered]"
  using calculateProgressInfo_points [of "''vape''" "zone4 25 0 0 0"]
  by (simp add: spec_net_zone4)

text \<open>
  C3 as stated fails where the last addition is rounded: at vape debt 9007199254740990
  the net score is -9007199254740990 and \<open>20 - net + 1\<close> is 9007199254741011, which is
  not a double; the code interpolates 9007199254741012.
\<close>

theorem calculateProgressInfo_points_counterexample:
  "spec_net (zone4 9007199254740990 0 0 0) ''vape'' = - 9007199254740990
   \<and> max 0 (20 - spec_net (zone4 9007199254740990 0 0 0) ''vape'' + 1) = 9007199254741011
   \<and> items (ZoneInspector_calculateProgressInfo (zone4 9007199254740990 0 0 0) ''vape''
        ''needs_restoration'') =
       [PointsToHealing (Val (JNum 9007199254740971)),
        PointsToRecovered (Val (JNum 9007199254741012))]"
proof -
  have n: "spec_net (zone4 9007199254740990 0 0 0) ''vape'' = - 9007199254740990"
    by (simp add: spec_net_zone4)
  have i: "items (ZoneInspector_calculateProgressInfo (zone4 9007199254740990 0 0 0) ''vape''
        ''needs_restoration'') =
       [PointsToHealing (Val (JNum 9007199254740971)),
        PointsToRecovered (Val (JNum 9007199254741012))]"
    by code_simp
  show ?thesis unfolding n i by simp
qed

text \<open>
  C5. Monotonicity: for a fixed view mode, a zone whose selected debt is the same and whose
  selected restore is at least as large has a state at least as good, in the order
  \<open>needs_restoration < healing < recovered\<close>.
\<close>

theorem calculateState_monotone:
  assumes "spec_debt z' m = spec_debt z m"
      and "spec_restore z m \<le> spec_restore z' m"
  shows "state_rank (HeatmapView_calculateState z m) \<le> state_rank (HeatmapView_calculateState z' m)"
  unfolding Heatmap_net using assms by (rule binary64_net_mono)

theorem calculateState_monotone_witness:
  "spec_debt (zone4 3 30 0 0) ''vape'' = spec_debt (zone4 3 10 0 0) ''vape''
   \<and> spec_restore (zone4 3 10 0 0) ''vape'' \<le> spec_restore (zone4 3 30 0 0) ''vape''
   \<and> HeatmapView_calculateState (zone4 3 10 0 0) ''vape'' = ''healing''
   \<and> HeatmapView_calculateState (zone4 3 30 0 0) ''vape'' = ''recovered''
   \<and> state_rank (HeatmapView_calculateState (zone4 3 10 0 0) ''vape'')
       \<le> state_rank (HeatmapView_calculateState (zone4 3 30 0 0) ''vape'')"
proof -
  have d: "spec_debt (zone4 3 30 0 0) ''vape'' = spec_debt (zone4 3 10 0 0) ''vape''"
    by (simp add: spec_parts_zone4)
  have r: "spec_restore (zone4 3 10 0 0) ''vape'' \<le> spec_restore (zone4 3 30 0 0) ''vape''"
    by (simp add: spec_parts_zone4)
  have h: "HeatmapView_calculateState (zone4 3 10 0 0) ''vape'' = ''healing''"
    by (simp add: single_mode_state spec_net_zone4 spec_state_def)
  have c: "HeatmapView_calculateState (zone4 3 30 0 0) ''vape'' = ''recovered''"
    by (simp add: single_mode_state spec_net_zone4 spec_state_def)
  from d r h c calculateState_monotone [OF d r] show ?thesis by blast
qed

text \<open>
  C7. A view mode other than \<open>vape\<close>, \<open>smoke\<close> and \<open>all\<close> gives the result of mode
  \<open>vape\<close>, in both copies of \<open>calculateState\<close>; it is not an error.
\<close>

theorem calculateState_unknown_mode:
  assumes "m \<notin> {''vape'', ''smoke'', ''all''}"
  shows "HeatmapView_calculateState z m = HeatmapView_calculateState z ''vape''
       \<and> ZoneInspector_calculateState z m = ZoneInspector_calculateState z ''vape''"
  using assms
  by (simp add: Heatmap_net Inspector_net binary64_net_def)

theorem calculateState_unknown_mode_witness:
  "''heat'' \<notin> {''vape'', ''smoke'', ''all''}
   \<and> HeatmapView_calculateState (zone4 0 30 50 0) ''heat'' = ''recovered''
   \<and> HeatmapView_calculateState (zone4 0 30 50 0) ''vape'' = ''recovered''
   \<and> ZoneInspector_calculateState (zone4 0 30 50 0) ''heat'' = ''recovered''"
proof -
  have m: "''heat'' \<notin> {''vape'', ''smoke'', ''all''}" by simp
  have v: "HeatmapView_calculateState (zone4 0 30 50 0) ''vape'' = ''recovered''"
    by (simp add: single_mode_state spec_net_zone4 spec_state_def)
  have i: "ZoneInspector_calculateState (zone4 0 30 50 0) ''vape'' = ''recovered''"
    by (simp add: single_mode_state spec_net_zone4 spec_state_def)
  from calculateState_unknown_mode [OF m, of "zone4 0 30 50 0"] m v i show ?thesis by simp
qed

text \<open>
  C8, as amended. A property that holds a falsy value (absent or \<open>undefined\<close>, \<open>null\<close>,
  \<open>false\<close>, \<open>NaN\<close> or \<open>0\<close>) counts as 0: \<open>calculateState\<close> returns the same state as
  for the zone with that property set to 0.
\<close>

theorem falsy_field_as_zero:
  assumes "\<not> truthy (get_prop z k)"
  shows "HeatmapView_calculateState (z(k \<mapsto> JNum 0)) m = HeatmapView_calculateState z m"
  using assms by (simp add: Heatmap_net binary64_net_falsy_upd)

theorem falsy_field_as_zero_witness:
  "\<not> truthy (get_prop [''smoke_restore'' \<mapsto> JNull, ''smokeRestore'' \<mapsto> JNum 25] ''smoke_restore'')
   \<and> HeatmapView_calculateState
        ([''smoke_restore'' \<mapsto> JNull, ''smokeRestore'' \<mapsto> JNum 25](''smoke_restore'' \<mapsto> JNum 0)) ''smoke''
       = HeatmapView_calculateState [''smoke_restore'' \<mapsto> JNull, ''smokeRestore'' \<mapsto> JNum 25] ''smoke''
   \<and> HeatmapView_calculateState [''smoke_restore'' \<mapsto> JNull, ''smokeRestore'' \<mapsto> JNum 25] ''smoke''
       = ''recovered''"
proof -
  have f: "\<not> truthy (get_prop [''smoke_restore'' \<mapsto> JNull, ''smokeRestore'' \<mapsto> JNum 25] ''smoke_restore'')"
    by (simp add: get_prop_def)
  have r: "HeatmapView_calculateState [''smoke_restore'' \<mapsto> JNull, ''smokeRestore'' \<mapsto> JNum 25] ''smoke''
       = ''recovered''"
    by (simp add: single_mode_state spec_net_def spec_debt_def spec_restore_def spec_score_def
        get_prop_def num_of_def spec_state_def)
  from f r falsy_field_as_zero [OF f, of "''smoke''"] show ?thesis by blast
qed

text \<open>
  C8 as stated fails: a truthy value that is not a number is not replaced by 0. With
  \<open>vapeDebt\<close> holding \<open>true\<close> and \<open>vapeRestore\<close> holding 21, the debt enters the
  subtraction as 1, the net score is 20 and the state is \<open>healing\<close>; with \<open>vapeDebt\<close>
  replaced by 0 the state is \<open>recovered\<close>.
\<close>

theorem malformed_not_zero_counterexample:
  "HeatmapView_calculateState [''vapeDebt'' \<mapsto> JBool True, ''vapeRestore'' \<mapsto> JNum 21] ''vape''
     = ''healing''
   \<and> HeatmapView_calculateState [''vapeDebt'' \<mapsto> JNum 0, ''vapeRestore'' \<mapsto> JNum 21] ''vape''
     = ''recovered''
   \<and> HeatmapView_calculateState [''vapeDebt'' \<mapsto> JBool True, ''vapeRestore'' \<mapsto> JNum 21] ''vape''
     \<noteq> HeatmapView_calculateState
          ([''vapeDebt'' \<mapsto> JBool True, ''vapeRestore'' \<mapsto> JNum 21](''vapeDebt'' \<mapsto> JNum 0)) ''vape''"
  by (simp add: single_mode_state spec_net_def spec_debt_def spec_restore_def spec_score_def
      get_prop_def num_of_def spec_state_def)

text \<open>
  C9. The two copies agree: \<open>HeatmapView.calculateState\<close> and
  \<open>ZoneInspector.calculateState\<close> return the same state for every zone and every map
  type, and both components hold the same colour and the same message for each state.
\<close>

theorem replica_equivalence:
  "HeatmapView_calculateState z m = ZoneInspector_calculateState z m
   \<and> HeatmapView_stateColors = ZoneInspector_stateColors
   \<and> HeatmapView_stateMessages = ZoneInspector_stateMessages
   \<and> HeatmapView_stateColors ''needs_restoration'' = Some ''#F4D03F''
   \<and> HeatmapView_stateColors ''healing'' = Some ''#52BE80''
   \<and> HeatmapView_stateColors ''recovered'' = Some ''#5DADE2''
   \<and> HeatmapView_stateMessages ''needs_restoration'' = Some ''This space needs care''
   \<and> HeatmapView_stateMessages ''healing'' = Some ''This space is healing''
   \<and> HeatmapView_stateMessages ''recovered'' = Some ''This space has recovered''"
proof -
  have "HeatmapView_calculateState z m = ZoneInspector_calculateState z m"
    by (simp add: HeatmapView_calculateState_def ZoneInspector_calculateState_def
        HeatmapView_RECOVERED_THRESHOLD_def HeatmapView_HEALING_THRESHOLD_def Let_def)
  moreover have "HeatmapView_stateColors = ZoneInspector_stateColors"
    by (simp add: HeatmapView_stateColors_def ZoneInspector_stateColors_def)
  moreover have "HeatmapView_stateMessages = ZoneInspector_stateMessages"
    by (simp add: HeatmapView_stateMessages_def ZoneInspector_stateMessages_def)
  moreover have "HeatmapView_stateColors ''needs_restoration'' = Some ''#F4D03F''"
    "HeatmapView_stateColors ''healing'' = Some ''#52BE80''"
    "HeatmapView_stateColors ''recovered'' = Some ''#5DADE2''"
    by (simp_all add: HeatmapView_stateColors_def)
  moreover have "HeatmapView_stateMessages ''needs_restoration'' = Some ''This space needs care''"
    "HeatmapView_stateMessages ''healing'' = Some ''This space is healing''"
    "HeatmapView_stateMessages ''recovered'' = Some ''This space has recovered''"
    by (simp_all add: HeatmapView_stateMessages_def)
  ultimately show ?thesis by blast
qed

text \<open>
  C10. Each score is read under a snake-case and a camel-case name: the snake-case value
  is used when it is truthy, otherwise the camel-case value when that is truthy,
  otherwise 0. In both copies of \<open>calculateState\<close> the state of a zone is the state of
  the zone that holds, under the camel-case names only, the values picked in this way;
  in the modes \<open>vape\<close> and \<open>smoke\<close> it is the threshold state of the difference of the
  two scores picked in this way, and in mode \<open>all\<close> likewise for the sums, when these
  are at most \<open>2^53\<close> in magnitude.
\<close>

theorem field_name_precedence:
  "HeatmapView_calculateState z m = HeatmapView_calculateState (by_precedence z) m
   \<and> ZoneInspector_calculateState z m = ZoneInspector_calculateState (by_precedence z) m
   \<and> HeatmapView_calculateState z ''vape'' =
     spec_state (spec_score z ''vape_restore'' ''vapeRestore'' - spec_score z ''vape_debt'' ''vapeDebt'')
   \<and> ZoneInspector_calculateState z ''vape'' =
     spec_state (spec_score z ''vape_restore'' ''vapeRestore'' - spec_score z ''vape_debt'' ''vapeDebt'')
   \<and> HeatmapView_calculateState z ''smoke'' =
     spec_state (spec_score z ''smoke_restore'' ''smokeRestore'' - spec_score z ''smoke_debt'' ''smokeDebt'')
   \<and> ZoneInspector_calculateState z ''smoke'' =
     spec_state (spec_score z ''smoke_restore'' ''smokeRestore'' - spec_score z ''smoke_debt'' ''smokeDebt'')
   \<and> (\<bar>spec_debt z ''all''\<bar> \<le> 2 ^ 53 \<and> \<bar>spec_restore z ''all''\<bar> \<le> 2 ^ 53 \<longrightarrow>
        HeatmapView_calculateState z ''all'' = spec_state (spec_restore z ''all'' - spec_debt z ''all'')
        \<and> ZoneInspector_calculateState z ''all'' = spec_state (spec_restore z ''all'' - spec_debt z ''all''))"
proof -
  have p: "HeatmapView_calculateState z m = HeatmapView_calculateState (by_precedence z) m"
    "ZoneInspector_calculateState z m = ZoneInspector_calculateState (by_precedence z) m"
    by (simp_all add: Heatmap_net Inspector_net binary64_net_by_precedence)
  have s: "HeatmapView_calculateState z ''vape'' = spec_state (spec_net z ''vape'')"
    "HeatmapView_calculateState z ''smoke'' = spec_state (spec_net z ''smoke'')"
    "ZoneInspector_calculateState z ''vape'' = spec_state (spec_net z ''vape'')"
    "ZoneInspector_calculateState z ''smoke'' = spec_state (spec_net z ''smoke'')"
    by (simp_all add: single_mode_state)
  have a: "HeatmapView_calculateState z ''all'' = spec_state (spec_net z ''all'')
         \<and> ZoneInspector_calculateState z ''all'' = spec_state (spec_net z ''all'')"
    if "\<bar>spec_debt z ''all''\<bar> \<le> 2 ^ 53" "\<bar>spec_restore z ''all''\<bar> \<le> 2 ^ 53"
    using that bounded_state[of z "''all''"] by simp
  have s': "HeatmapView_calculateState z ''vape'' =
     spec_state (spec_score z ''vape_restore'' ''vapeRestore'' - spec_score z ''vape_debt'' ''vapeDebt'')"
    "ZoneInspector_calculateState z ''vape'' =
     spec_state (spec_score z ''vape_restore'' ''vapeRestore'' - spec_score z ''vape_debt'' ''vapeDebt'')"
    "HeatmapView_calculateState z ''smoke'' =
     spec_state (spec_score z ''smoke_restore'' ''smokeRestore'' - spec_score z ''smoke_debt'' ''smokeDebt'')"
    "ZoneInspector_calculateState z ''smoke'' =
     spec_state (spec_score z ''smoke_restore'' ''smokeRestore'' - spec_score z ''smoke_debt'' ''smokeDebt'')"
    using s by (simp_all add: spec_net_def spec_debt_def spec_restore_def)
  from p s' a show ?thesis unfolding spec_net_def by blast
qed

text \<open>
  Instances of C10, in both copies. With \<open>vape_debt\<close> 0 and \<open>vapeDebt\<close> 7 the vape
  debt is 7: with vape restore 27 the zone is \<open>healing\<close> (net score 20), where a debt
  of 0 would make it \<open>recovered\<close>. With \<open>vape_debt\<close> 7 and \<open>vapeDebt\<close> 50 the debt
  is 7 again, where a debt of 50 would make the zone \<open>needs_restoration\<close>. With neither
  name holding a truthy value the debt is 0.
\<close>

theorem field_name_precedence_witness:
  "by_precedence [''vape_debt'' \<mapsto> JNum 0, ''vapeDebt'' \<mapsto> JNum 7, ''vapeRestore'' \<mapsto> JNum 27]
       = zone4 7 27 0 0
   \<and> spec_score [''vape_debt'' \<mapsto> JNum 0, ''vapeDebt'' \<mapsto> JNum 7, ''vapeRestore'' \<mapsto> JNum 27]
        ''vape_debt'' ''vapeDebt'' = 7
   \<and> HeatmapView_calculateState
        [''vape_debt'' \<mapsto> JNum 0, ''vapeDebt'' \<mapsto> JNum 7, ''vapeRestore'' \<mapsto> JNum 27] ''vape''
       = ''healing''
   \<and> ZoneInspector_calculateState
        [''vape_debt'' \<mapsto> JNum 0, ''vapeDebt'' \<mapsto> JNum 7, ''vapeRestore'' \<mapsto> JNum 27] ''vape''
       = ''healing''
   \<and> HeatmapView_calculateState (zone4 0 27 0 0) ''vape'' = ''recovered''
   \<and> ZoneInspector_calculateState (zone4 0 27 0 0) ''vape'' = ''recovered''
   \<and> HeatmapView_calculateState
        [''vape_debt'' \<mapsto> JNum 7, ''vapeDebt'' \<mapsto> JNum 50, ''vapeRestore'' \<mapsto> JNum 27] ''vape''
       = ''healing''
   \<and> ZoneInspector_calculateState
        [''vape_debt'' \<mapsto> JNum 7, ''vapeDebt'' \<mapsto> JNum 50, ''vapeRestore'' \<mapsto> JNum 27] ''vape''
       = ''healing''
   \<and> HeatmapView_calculateState (zone4 50 27 0 0) ''vape'' = ''needs_restoration''
   \<and> ZoneInspector_calculateState
        [''smoke_debt'' \<mapsto> JNull, ''smokeDebt'' \<mapsto> JNum 0, ''smoke_restore'' \<mapsto> JNum 21] ''smoke''
       = ''recovered''
   \<and> \<bar>spec_debt [''vape_debt'' \<mapsto> JNum 0, ''vapeDebt'' \<mapsto> JNum 7, ''smoke_restore'' \<mapsto> JNum 27] ''all''\<bar>
        \<le> 2 ^ 53
   \<and> \<bar>spec_restore [''vape_debt'' \<mapsto> JNum 0, ''vapeDebt'' \<mapsto> JNum 7, ''smoke_restore'' \<mapsto> JNum 27] ''all''\<bar>
        \<le> 2 ^ 53
   \<and> HeatmapView_calculateState
        [''vape_debt'' \<mapsto> JNum 0, ''vapeDebt'' \<mapsto> JNum 7, ''smoke_restore'' \<mapsto> JNum 27] ''all''
       = ''healing''
   \<and> ZoneInspector_calculateState
        [''vape_debt'' \<mapsto> JNum 0, ''vapeDebt'' \<mapsto> JNum 7, ''smoke_restore'' \<mapsto> JNum 27] ''all''
       = ''healing''"
proof -
  let ?a = "[''vape_debt'' \<mapsto> JNum 0, ''vapeDebt'' \<mapsto> JNum 7, ''vapeRestore'' \<mapsto> JNum 27]"
  let ?b = "[''vape_debt'' \<mapsto> JNum 7, ''vapeDebt'' \<mapsto> JNum 50, ''vapeRestore'' \<mapsto> JNum 27]"
  let ?c = "[''smoke_debt'' \<mapsto> JNull, ''smokeDebt'' \<mapsto> JNum 0, ''smoke_restore'' \<mapsto> JNum 21]"
  let ?d = "[''vape_debt'' \<mapsto> JNum 0, ''vapeDebt'' \<mapsto> JNum 7, ''smoke_restore'' \<mapsto> JNum 27]"
  have e: "by_precedence ?a = zone4 7 27 0 0"
    by (simp add: by_precedence_def spec_pick_def get_prop_def zone4_def)
  have a: "spec_score ?a ''vape_debt'' ''vapeDebt'' = 7"
    "spec_score ?a ''vape_restore'' ''vapeRestore'' = 27"
    by (simp_all add: spec_score_def get_prop_def num_of_def)
  have b: "spec_score ?b ''vape_debt'' ''vapeDebt'' = 7"
    "spec_score ?b ''vape_restore'' ''vapeRestore'' = 27"
    by (simp_all add: spec_score_def get_prop_def num_of_def)
  have c: "spec_score ?c ''smoke_debt'' ''smokeDebt'' = 0"
    "spec_score ?c ''smoke_restore'' ''smokeRestore'' = 21"
    by (simp_all add: spec_score_def get_prop_def num_of_def)
  have d: "spec_debt ?d ''all'' = 7" "spec_restore ?d ''all'' = 27"
    by (simp_all add: spec_debt_def spec_restore_def spec_score_def get_prop_def num_of_def)
  have hv: "HeatmapView_calculateState z ''vape'' =
      spec_state (spec_score z ''vape_restore'' ''vapeRestore'' - spec_score z ''vape_debt'' ''vapeDebt'')"
    and iv: "ZoneInspector_calculateState z ''vape'' =
      spec_state (spec_score z ''vape_restore'' ''vapeRestore'' - spec_score z ''vape_debt'' ''vapeDebt'')"
    and ism: "ZoneInspector_calculateState z ''smoke'' =
      spec_state (spec_score z ''smoke_restore'' ''smokeRestore'' - spec_score z ''smoke_debt'' ''smokeDebt'')"
    for z
    using field_name_precedence [of z "''vape''"] by blast+
  have bd: "\<bar>spec_debt ?d ''all''\<bar> \<le> 2 ^ 53 \<and> \<bar>spec_restore ?d ''all''\<bar> \<le> 2 ^ 53"
    by (simp add: d)
  have al: "HeatmapView_calculateState ?d ''all'' = spec_state (spec_restore ?d ''all'' - spec_debt ?d ''all'')"
    "ZoneInspector_calculateState ?d ''all'' = spec_state (spec_restore ?d ''all'' - spec_debt ?d ''all'')"
    using field_name_precedence [of ?d "''all''"] bd by blast+
  show ?thesis
    unfolding hv iv ism al e a b c d spec_score_zone4 by (simp add: spec_state_def)
qed

text \<open>
  C6. Totality: for every zone object of the data model (each property absent,
  \<open>undefined\<close>, \<open>null\<close>, a boolean, an integer or \<open>NaN\<close>) and every view mode, the call
  of \<open>calculateState\<close> does not raise and returns one of the three states. A property
  that is absent or \<open>undefined\<close> counts as 0: writing 0 into it does not change the
  result, and the result is the threshold state of the net score in which every absent
  score is 0 (in mode \<open>all\<close> when the two sums are at most \<open>2^53\<close> in magnitude).
\<close>

theorem calculateState_total:
  "HeatmapView_calculateState_call (zone_object z) m = Inr (HeatmapView_calculateState z m)
   \<and> HeatmapView_calculateState z m \<in> {''needs_restoration'', ''healing'', ''recovered''}
   \<and> (z k = None \<or> z k = Some JUndefined \<longrightarrow>
        HeatmapView_calculateState (z(k \<mapsto> JNum 0)) m = HeatmapView_calculateState z m)
   \<and> ((m = ''all'' \<longrightarrow> \<bar>spec_debt z m\<bar> \<le> 2 ^ 53 \<and> \<bar>spec_restore z m\<bar> \<le> 2 ^ 53) \<longrightarrow>
        HeatmapView_calculateState z m = spec_state (spec_net z m))"
proof -
  have f: "\<not> truthy (get_prop z k)" if "z k = None \<or> z k = Some JUndefined"
    using that by (auto simp add: get_prop_def)
  have u: "HeatmapView_calculateState (z(k \<mapsto> JNum 0)) m = HeatmapView_calculateState z m"
    if "z k = None \<or> z k = Some JUndefined"
    using f[OF that] by (simp add: Heatmap_net binary64_net_falsy_upd)
  have r: "HeatmapView_calculateState z m \<in> {''needs_restoration'', ''healing'', ''recovered''}"
    unfolding Heatmap_net by (rule number_state_range)
  have g: "HeatmapView_calculateState z m = spec_state (spec_net z m)"
    if "m = ''all'' \<longrightarrow> \<bar>spec_debt z m\<bar> \<le> 2 ^ 53 \<and> \<bar>spec_restore z m\<bar> \<le> 2 ^ 53"
    using that by (rule guarded_state(1))
  from call_zone_object[of z m] r u g show ?thesis by blast
qed

text \<open>
  Instances of C6: the empty zone object is \<open>healing\<close> in every mode, a zone with only
  a vape restore of 30 is \<open>recovered\<close> (its absent debt is 0), and a zone with only a
  vape debt of 30 is \<open>needs_restoration\<close> (its absent restore is 0).
\<close>

theorem calculateState_total_witness:
  "HeatmapView_calculateState_call (zone_object Map.empty) ''vape'' = Inr ''healing''
   \<and> HeatmapView_calculateState_call (zone_object Map.empty) ''all'' = Inr ''healing''
   \<and> HeatmapView_calculateState_call (zone_object [''vapeRestore'' \<mapsto> JNum 30]) ''vape''
       = Inr ''recovered''
   \<and> HeatmapView_calculateState_call (zone_object [''vapeRestore'' \<mapsto> JNum 30]) ''all''
       = Inr ''recovered''
   \<and> HeatmapView_calculateState_call (zone_object [''vapeDebt'' \<mapsto> JNum 30]) ''vape''
       = Inr ''needs_restoration''
   \<and> HeatmapView_calculateState_call
        (zone_object [''smokeDebt'' \<mapsto> JUndefined, ''smokeRestore'' \<mapsto> JNum 21]) ''smoke''
       = Inr ''recovered''
   \<and> [''vapeRestore'' \<mapsto> JNum 30] ''vapeDebt'' = None
   \<and> HeatmapView_calculateState ([''vapeRestore'' \<mapsto> JNum 30](''vapeDebt'' \<mapsto> JNum 0)) ''vape''
       = HeatmapView_calculateState [''vapeRestore'' \<mapsto> JNum 30] ''vape''"
proof -
  let ?e = "Map.empty :: zone"
  let ?r = "[''vapeRestore'' \<mapsto> JNum 30]"
  let ?d = "[''vapeDebt'' \<mapsto> JNum 30]"
  let ?s = "[''smokeDebt'' \<mapsto> JUndefined, ''smokeRestore'' \<mapsto> JNum 21]"
  have sc: "spec_debt ?e m = 0" "spec_restore ?e m = 0"
    "spec_debt ?r m = 0" "spec_restore ?r ''vape'' = 30" "spec_restore ?r ''all'' = 30"
    "spec_debt ?d ''vape'' = 30" "spec_restore ?d ''vape'' = 0"
    "spec_debt ?s ''smoke'' = 0" "spec_restore ?s ''smoke'' = 21" for m
    by (simp_all add: spec_debt_def spec_restore_def spec_score_def get_prop_def num_of_def)
  have n: "?r ''vapeDebt'' = None" by simp
  show ?thesis
    using calculateState_total [of ?e "''vape''" "''vapeDebt''"]
      calculateState_total [of ?e "''all''" "''vapeDebt''"]
      calculateState_total [of ?r "''vape''" "''vapeDebt''"]
      calculateState_total [of ?r "''all''" "''vapeDebt''"]
      calculateState_total [of ?d "''vape''" "''vapeDebt''"]
      calculateState_total [of ?s "''smoke''" "''vapeDebt''"]
    unfolding spec_net_def sc n by (simp add: spec_state_def)
qed

end
